theory Spec2Isabelle
  imports Complex_Main "HOL-Library.Word"
begin

section \<open>Data model\<close>

subsection \<open>Python strings\<close>

text \<open>
  A Python \<open>str\<close> is a sequence of Unicode code points; \<open>len\<close>, slicing,
  \<open>startswith\<close> and \<open>strip\<close> all count code points. The literals of
  \<open>main.py\<close> contain code points beyond one byte (U+1F3A8 in the status text and the
  caption, U+274C in the error text), so a string is modelled as the list of its code
  points, and \<open>py\<close> embeds an ASCII literal.
\<close>

type_synonym pystr = "nat list"

definition py :: "string \<Rightarrow> pystr" where
  "py s = map of_char s"

text \<open>
  \<open>str.isspace\<close> on one code point: the whitespace table of the Python runtime
  (bidirectional type WS, B or S, or category Zs), which \<open>str.strip()\<close> without
  arguments removes from both ends.
\<close>

definition isspace :: "nat \<Rightarrow> bool" where
  "isspace c =
     (c \<in> set [0x09, 0x0A, 0x0B, 0x0C, 0x0D, 0x1C, 0x1D, 0x1E, 0x1F, 0x20, 0x85, 0xA0,
               0x1680, 0x2000, 0x2001, 0x2002, 0x2003, 0x2004, 0x2005, 0x2006, 0x2007,
               0x2008, 0x2009, 0x200A, 0x2028, 0x2029, 0x202F, 0x205F, 0x3000])"

definition lstrip :: "pystr \<Rightarrow> pystr" where
  "lstrip s = dropWhile isspace s"

definition rstrip :: "pystr \<Rightarrow> pystr" where
  "rstrip s = rev (dropWhile isspace (rev s))"

definition strip :: "pystr \<Rightarrow> pystr" where
  "strip s = rstrip (lstrip s)"

definition startswith :: "pystr \<Rightarrow> pystr \<Rightarrow> bool" where
  "startswith s p = (take (length p) s = p)"

subsection \<open>Exceptions\<close>

text \<open>
  What a call can raise. \<open>AttributeError a\<close> is what reading attribute \<open>a\<close> of
  \<open>None\<close> raises; \<open>Exn s\<close> is any other instance \<open>e\<close> of \<open>Exception\<close> raised by a
  call into the chat transport or the generation service, with \<open>str(e) = s\<close>;
  \<open>BaseExn s\<close> is an exception that derives from \<open>BaseException\<close> and not from
  \<open>Exception\<close> (\<open>asyncio.CancelledError\<close> delivered at an \<open>await\<close>,
  \<open>KeyboardInterrupt\<close>, \<open>SystemExit\<close>), with \<open>str(e) = s\<close>.
\<close>

datatype exn = AttributeError pystr | Exn pystr | BaseExn pystr

text \<open>
  \<open>isinstance(e, Exception)\<close>: what the clause \<open>except Exception\<close> of line 114
  catches. A bare \<open>except\<close> catches every value of the type.
\<close>

fun is_exception :: "exn \<Rightarrow> bool" where
  "is_exception (AttributeError a) = True"
| "is_exception (Exn s) = True"
| "is_exception (BaseExn s) = False"

fun str_exn :: "exn \<Rightarrow> pystr" where
  "str_exn (AttributeError a) =
     [39] @ py ''NoneType'' @ [39] @ py '' object has no attribute '' @ [39] @ a @ [39]"
| "str_exn (Exn s) = s"
| "str_exn (BaseExn s) = s"

subsection \<open>Chat transport objects\<close>

text \<open>The field \<open>text\<close> of a message is the selector \<open>msg_text\<close>.\<close>

datatype message = Message (msg_text: pystr)

datatype update = Update (message: "message option")

text \<open>The handle of a message this bot has sent (the value \<open>reply_text\<close> returns).\<close>

type_synonym sent = nat

subsection \<open>Generation service objects\<close>

type_synonym bytes = "8 word list"

text \<open>
  Modelled from the spec: the artifact type tag is an enum of the generation client
  library, which is not part of the repository; the spec gives it as (image | other).
  The code only compares it with \<open>ARTIFACT_IMAGE\<close>.
\<close>

datatype artifact_type = ARTIFACT_IMAGE | ARTIFACT_OTHER

record artifact =
  atype :: artifact_type
  binary :: bytes

record answer =
  artifacts :: "artifact list"

text \<open>
  Modelled from the spec: the sampler identifier is an enum constant of the generation
  client library; the code always passes \<open>SAMPLER_K_DPMPP_2M\<close>.
\<close>

datatype sampler = SAMPLER_K_DPMPP_2M | SAMPLER_OTHER

record request =
  prompt :: pystr
  seed :: int
  steps :: int
  cfg_scale :: real
  width :: int
  height :: int
  samples :: int
  sampler :: sampler

subsection \<open>The environment of a handler call\<close>

text \<open>
  Every call that leaves the process is a field of the environment, which says what the
  call returns or raises. \<open>generate\<close> returns a lazy stream: the entries it yields in
  order and, after them, either the end of the stream (\<open>None\<close>) or the exception that the
  next read raises (a call that fails at once yields no entry). A handler makes each of
  its calls at most once, so an outcome that depends only on the arguments loses nothing.
\<close>

record world =
  time_time :: real
  generate :: "request \<Rightarrow> answer list \<times> exn option"
  reply_text :: "pystr \<Rightarrow> exn + sent"
  reply_photo :: "bytes \<Rightarrow> pystr \<Rightarrow> exn option"
  delete :: "sent \<Rightarrow> exn option"
  edit_text :: "sent \<Rightarrow> pystr \<Rightarrow> exn option"
  str_update :: "update option \<Rightarrow> pystr"

text \<open>What a handler does, in order: the calls it makes and the lines it logs.\<close>

datatype event =
    ReplyText pystr
  | Generate request
  | ReplyPhoto bytes pystr
  | Delete sent
  | EditText sent pystr
  | LogError pystr

datatype outcome = Returned | Raised exn

type_synonym result = "event list \<times> outcome"

section \<open>The handlers\<close>

subsection \<open>Fixed texts\<close>

definition generate_prefix :: pystr where
  "generate_prefix = py ''/generate ''"

definition please_text :: pystr where
  "please_text = py ''Please provide a description after /generate''"

definition status_text :: pystr where
  "status_text = 0x1F3A8 # py '' Generating your image... Please wait!''"

definition caption :: "pystr \<Rightarrow> pystr" where
  "caption p = 0x1F3A8 # py '' Generated image for: '' @ [39] @ p @ [39]"

definition error_text :: pystr where
  "error_text =
     0x274C # py '' Sorry, there was an error generating your image. Please try again later.''"

definition wrong_text :: pystr where
  "wrong_text = py ''Sorry, something went wrong. Please try again later.''"

subsection \<open>\<open>handle_text\<close>\<close>

text \<open>\<open>int(x)\<close> on a float: truncation towards zero.\<close>

definition int_of_float :: "real \<Rightarrow> int" where
  "int_of_float x = (if 0 \<le> x then \<lfloor>x\<rfloor> else \<lceil>x\<rceil>)"

definition generate_request :: "world \<Rightarrow> pystr \<Rightarrow> request" where
  "generate_request w p =
     \<lparr>prompt = p, seed = int_of_float (time_time w), steps = 30, cfg_scale = 7.0,
      width = 512, height = 512, samples = 1, sampler = SAMPLER_K_DPMPP_2M\<rparr>"

text \<open>How the body of the \<open>try\<close> block is left.\<close>

datatype flow = Fallthrough | Return | Raise exn

text \<open>Lines 103 to 112: the photo reply, the deletion of the status message, \<open>return\<close>.\<close>

definition send_image :: "world \<Rightarrow> sent \<Rightarrow> pystr \<Rightarrow> artifact \<Rightarrow> event list \<times> flow" where
  "send_image w st p a =
     (let img = binary a in
      case reply_photo w img (caption p) of
        Some e \<Rightarrow> ([ReplyPhoto img (caption p)], Raise e)
      | None \<Rightarrow>
          (case delete w st of
             Some e \<Rightarrow> ([ReplyPhoto img (caption p), Delete st], Raise e)
           | None \<Rightarrow> ([ReplyPhoto img (caption p), Delete st], Return)))"

text \<open>The inner loop, \<open>for artifact in resp.artifacts\<close>.\<close>

fun for_artifacts :: "world \<Rightarrow> sent \<Rightarrow> pystr \<Rightarrow> artifact list \<Rightarrow> event list \<times> flow" where
  "for_artifacts w st p [] = ([], Fallthrough)"
| "for_artifacts w st p (a # as) =
     (if atype a = ARTIFACT_IMAGE then send_image w st p a
      else for_artifacts w st p as)"

text \<open>The outer loop, \<open>for resp in answers\<close>, over the lazy stream.\<close>

fun for_answers :: "world \<Rightarrow> sent \<Rightarrow> pystr \<Rightarrow> answer list \<times> exn option \<Rightarrow> event list \<times> flow" where
  "for_answers w st p ([], None) = ([], Fallthrough)"
| "for_answers w st p ([], Some e) = ([], Raise e)"
| "for_answers w st p (resp # rest, fin) =
     (case for_artifacts w st p (artifacts resp) of
        (evs, Fallthrough) \<Rightarrow>
          (case for_answers w st p (rest, fin) of (evs', fl) \<Rightarrow> (evs @ evs', fl))
      | (evs, fl) \<Rightarrow> (evs, fl))"

text \<open>Lines 115 and 116: the body of the \<open>except Exception\<close> branch.\<close>

definition on_exception :: "world \<Rightarrow> sent \<Rightarrow> exn \<Rightarrow> result" where
  "on_exception w st e =
     (let logged = LogError (py ''Error generating image: '' @ str_exn e) in
      case edit_text w st error_text of
        Some e' \<Rightarrow> ([logged, EditText st error_text], Raised e')
      | None \<Rightarrow> ([logged, EditText st error_text], Returned))"

definition handle_text :: "world \<Rightarrow> update \<Rightarrow> result" where
  "handle_text w upd =
     (case message upd of
        None \<Rightarrow> ([], Raised (AttributeError (py ''text'')))
      | Some m \<Rightarrow>
          (let message_text = msg_text m in
           if startswith message_text generate_prefix then
             (let p = strip (drop 9 message_text) in
              if p = [] then
                (case reply_text w please_text of
                   Inl e \<Rightarrow> ([ReplyText please_text], Raised e)
                 | Inr _ \<Rightarrow> ([ReplyText please_text], Returned))
              else
                (case reply_text w status_text of
                   Inl e \<Rightarrow> ([ReplyText status_text], Raised e)
                 | Inr st \<Rightarrow>
                     (let req = generate_request w p in
                      case for_answers w st p (generate w req) of
                        (evs, Raise e) \<Rightarrow>
                          (if is_exception e then
                             (case on_exception w st e of
                                (evs', out) \<Rightarrow>
                                  (ReplyText status_text # Generate req # evs @ evs', out))
                           else (ReplyText status_text # Generate req # evs, Raised e))
                      | (evs, _) \<Rightarrow>
                          (ReplyText status_text # Generate req # evs, Returned))))
           else ([], Returned)))"

subsection \<open>\<open>error_handler\<close>\<close>

text \<open>
  The \<open>try\<close> block of lines 121 to 124: reading \<open>update.message\<close> of a missing
  update, or \<open>reply_text\<close> of a missing message, raises inside the block, as a failing
  reply does; the bare \<open>except\<close> discards whatever was raised.
\<close>

definition try_reply :: "world \<Rightarrow> update option \<Rightarrow> event list \<times> flow" where
  "try_reply w upd =
     (case upd of
        None \<Rightarrow> ([], Raise (AttributeError (py ''message'')))
      | Some u \<Rightarrow>
          (case message u of
             None \<Rightarrow> ([], Raise (AttributeError (py ''reply_text'')))
           | Some m \<Rightarrow>
               (case reply_text w wrong_text of
                  Inl e \<Rightarrow> ([ReplyText wrong_text], Raise e)
                | Inr _ \<Rightarrow> ([ReplyText wrong_text], Fallthrough))))"

definition error_handler :: "world \<Rightarrow> update option \<Rightarrow> exn \<Rightarrow> result" where
  "error_handler w upd err =
     (let logged =
        LogError (py ''Update '' @ str_update w upd @ py '' caused error '' @ str_exn err) in
      case try_reply w upd of
        (evs, Raise e) \<Rightarrow> (logged # evs, Returned)
      | (evs, _) \<Rightarrow> (logged # evs, Returned))"

section \<open>Vocabulary of the properties\<close>

text \<open>
  The first image artifact of a response in the words of the specification: the entries
  in order, the artifacts of each entry in order, the first one whose type is image.
\<close>

definition image_artifact :: "artifact \<Rightarrow> bool" where
  "image_artifact a = (atype a = ARTIFACT_IMAGE)"

definition first_image :: "answer list \<Rightarrow> artifact option" where
  "first_image answers = find image_artifact (concat (map artifacts answers))"

fun generate_call :: "event \<Rightarrow> bool" where
  "generate_call (Generate req) = True"
| "generate_call _ = False"

fun photo_reply :: "event \<Rightarrow> bool" where
  "photo_reply (ReplyPhoto img cap) = True"
| "photo_reply _ = False"

text \<open>
  The caption as the specification words it, without the leading U+1F3A8 and space of
  the literal on line 109.
\<close>

definition spec_caption :: "pystr \<Rightarrow> pystr" where
  "spec_caption p = py ''Generated image for: '' @ [39] @ p @ [39]"

subsection \<open>Concrete environments\<close>

definition png :: bytes where
  "png = [0x89, 0x50, 0x4E, 0x47]"

definition three_answers :: "answer list" where
  "three_answers =
     [\<lparr>artifacts = [\<lparr>atype = ARTIFACT_OTHER, binary = [0]\<rparr>]\<rparr>,
      \<lparr>artifacts = [\<lparr>atype = ARTIFACT_OTHER, binary = [1]\<rparr>,
                    \<lparr>atype = ARTIFACT_IMAGE, binary = png\<rparr>,
                    \<lparr>atype = ARTIFACT_IMAGE, binary = [2]\<rparr>]\<rparr>,
      \<lparr>artifacts = [\<lparr>atype = ARTIFACT_IMAGE, binary = [3]\<rparr>]\<rparr>]"

definition text_answers :: "answer list" where
  "text_answers =
     [\<lparr>artifacts = [\<lparr>atype = ARTIFACT_OTHER, binary = [0]\<rparr>]\<rparr>,
      \<lparr>artifacts = []\<rparr>,
      \<lparr>artifacts = [\<lparr>atype = ARTIFACT_OTHER, binary = [1]\<rparr>,
                    \<lparr>atype = ARTIFACT_OTHER, binary = [2]\<rparr>]\<rparr>]"

text \<open>An environment in which every call succeeds and the service returns three entries.\<close>

definition calm :: world where
  "calm =
     \<lparr>time_time = 1730000000.5,
      generate = (\<lambda>req. (three_answers, None)),
      reply_text = (\<lambda>s. Inr 7),
      reply_photo = (\<lambda>img cap. None),
      delete = (\<lambda>m. None),
      edit_text = (\<lambda>m s. None),
      str_update =
        (\<lambda>u. case u of None \<Rightarrow> py ''None'' | Some _ \<Rightarrow> py ''Update(update_id=1)'')\<rparr>"

definition timed_out :: exn where
  "timed_out = Exn (py ''Timed out'')"

text \<open>\<open>asyncio.CancelledError()\<close>, whose \<open>str\<close> is empty.\<close>

definition cancelled :: exn where
  "cancelled = BaseExn []"

definition cat_update :: update where
  "cat_update = Update (Some (Message (py ''/generate  a cat '')))"

section \<open>Auxiliary facts\<close>

lemma isspace_32: "isspace 32"
  by (simp add: isspace_def)

lemma drop_9_prefix: "drop 9 (generate_prefix @ r) = 32 # r"
  by (simp add: generate_prefix_def py_def)

lemma strip_drop_9: "strip (drop 9 (generate_prefix @ r)) = strip r"
  unfolding drop_9_prefix by (simp add: strip_def lstrip_def isspace_32)

lemma startswith_append: "startswith (p @ r) p"
  by (simp add: startswith_def)

lemma find_app:
  "find P (xs @ ys) = (case find P xs of None \<Rightarrow> find P ys | Some x \<Rightarrow> Some x)"
  by (induction xs) simp_all

lemma for_artifacts_find:
  "for_artifacts w st p as =
     (case find image_artifact as of
        None \<Rightarrow> ([], Fallthrough)
      | Some a \<Rightarrow> send_image w st p a)"
  by (induction as) (simp_all add: image_artifact_def)

lemma send_image_not_fallthrough: "snd (send_image w st p a) \<noteq> Fallthrough"
  by (simp add: send_image_def Let_def split: option.splits)

text \<open>The two loops find the first image artifact and do nothing else.\<close>

lemma for_answers_first_image:
  "for_answers w st p (answers, fin) =
     (case first_image answers of
        Some a \<Rightarrow> send_image w st p a
      | None \<Rightarrow> ([], case fin of None \<Rightarrow> Fallthrough | Some e \<Rightarrow> Raise e))"
proof (induction answers)
  case Nil
  show ?case by (cases fin) (simp_all add: first_image_def)
next
  case (Cons resp rest)
  show ?case
  proof (cases "find image_artifact (artifacts resp)")
    case None
    then show ?thesis
      using Cons by (simp add: for_artifacts_find first_image_def find_app split: option.splits)
  next
    case (Some a)
    obtain evs fl where s: "send_image w st p a = (evs, fl)" by (cases "send_image w st p a")
    with send_image_not_fallthrough [of w st p a] have "fl \<noteq> Fallthrough" by simp
    with Some s show ?thesis
      by (cases fl) (simp_all add: for_artifacts_find first_image_def find_app)
  qed
qed

text \<open>
  The three ways in which the body of the \<open>try\<close> block raises: the stream fails before
  any image artifact was read, the photo reply fails, or the deletion fails.
\<close>

lemma try_block_raises:
  "for_answers w st p (answers, fin) = (evs, Raise e) \<longleftrightarrow>
     (case first_image answers of
        None \<Rightarrow> fin = Some e \<and> evs = []
      | Some a \<Rightarrow>
          (case reply_photo w (binary a) (caption p) of
             Some e' \<Rightarrow> e' = e \<and> evs = [ReplyPhoto (binary a) (caption p)]
           | None \<Rightarrow>
               delete w st = Some e \<and> evs = [ReplyPhoto (binary a) (caption p), Delete st]))"
  by (auto simp: for_answers_first_image send_image_def Let_def split: option.splits)

text \<open>
  \<open>handle_text\<close> on a message that begins with the prefix: the slice \<open>[9:]\<close> keeps the
  space that ends the prefix, and \<open>strip\<close> removes it with the rest of the surrounding
  whitespace.
\<close>

lemma handle_text_generate:
  "handle_text w (Update (Some (Message (generate_prefix @ r)))) =
     (if strip r = [] then
        (case reply_text w please_text of
           Inl e \<Rightarrow> ([ReplyText please_text], Raised e)
         | Inr _ \<Rightarrow> ([ReplyText please_text], Returned))
      else
        (case reply_text w status_text of
           Inl e \<Rightarrow> ([ReplyText status_text], Raised e)
         | Inr st \<Rightarrow>
             (case for_answers w st (strip r) (generate w (generate_request w (strip r))) of
                (evs, Raise e) \<Rightarrow>
                  (if is_exception e then
                     (case on_exception w st e of
                        (evs', out) \<Rightarrow>
                          (ReplyText status_text # Generate (generate_request w (strip r)) # evs @ evs',
                           out))
                   else (ReplyText status_text # Generate (generate_request w (strip r)) # evs,
                         Raised e))
              | (evs, _) \<Rightarrow>
                  (ReplyText status_text # Generate (generate_request w (strip r)) # evs,
                   Returned))))"
  by (simp add: handle_text_def startswith_append strip_drop_9 Let_def del: drop_append
           split: sum.splits)

lemma startswith_split: "startswith t p \<Longrightarrow> t = p @ drop (length p) t"
  unfolding startswith_def by (metis append_take_drop_id)

lemma first_image_none:
  "\<forall>resp\<in>set answers. \<forall>a\<in>set (artifacts resp). atype a \<noteq> ARTIFACT_IMAGE
     \<Longrightarrow> first_image answers = None"
  by (auto simp: first_image_def find_None_iff image_artifact_def)

text \<open>Only \<open>handle_text\<close> itself calls the generation service.\<close>

lemma send_image_no_generate: "filter generate_call (fst (send_image w st p a)) = []"
  by (simp add: send_image_def Let_def split: option.splits)

lemma for_answers_no_generate: "filter generate_call (fst (for_answers w st p resp)) = []"
  by (cases resp) (simp add: for_answers_first_image send_image_no_generate split: option.splits)

lemma on_exception_no_generate: "filter generate_call (fst (on_exception w st e)) = []"
  by (simp add: on_exception_def Let_def split: option.splits)

text \<open>
  The generation calls and photo replies of any run of \<open>handle_text\<close>: none of either,
  or one call and the photo reply that the first image artifact of its response decides.
\<close>

lemma handle_text_calls:
  "filter generate_call (fst (handle_text w upd)) = [] \<and>
     filter photo_reply (fst (handle_text w upd)) = [] \<or>
   (\<exists>p. filter generate_call (fst (handle_text w upd)) = [Generate (generate_request w p)] \<and>
        filter photo_reply (fst (handle_text w upd)) =
          (case first_image (fst (generate w (generate_request w p))) of
             None \<Rightarrow> []
           | Some a \<Rightarrow> [ReplyPhoto (binary a) (caption p)]))"
proof (cases upd)
  case (Update mo)
  show ?thesis
  proof (cases mo)
    case None
    with Update show ?thesis by (simp add: handle_text_def)
  next
    case (Some m)
    obtain t where m: "m = Message t" by (cases m)
    show ?thesis
    proof (cases "startswith t generate_prefix")
      case False
      with Update Some m show ?thesis by (simp add: handle_text_def)
    next
      case True
      then obtain r where t: "t = generate_prefix @ r"
        using startswith_split by blast
      show ?thesis
      proof (cases "strip r = []")
        case True
        then show ?thesis
          unfolding Update Some m t
          by (simp add: handle_text_generate split: sum.splits)
      next
        case False
        show ?thesis
        proof (cases "reply_text w status_text")
          case (Inl e)
          with False show ?thesis
            unfolding Update Some m t by (simp add: handle_text_generate)
        next
          case (Inr st)
          obtain answers fin where g: "generate w (generate_request w (strip r)) = (answers, fin)"
            by (cases "generate w (generate_request w (strip r))")
          have "filter generate_call (fst (handle_text w upd)) = [Generate (generate_request w (strip r))] \<and>
                filter photo_reply (fst (handle_text w upd)) =
                  (case first_image (fst (generate w (generate_request w (strip r)))) of
                     None \<Rightarrow> []
                   | Some a \<Rightarrow> [ReplyPhoto (binary a) (caption (strip r))])"
            unfolding Update Some m t using False Inr g
            by (simp add: handle_text_generate for_answers_first_image send_image_def
                  on_exception_def Let_def split: option.splits)
          then show ?thesis by blast
        qed
      qed
    qed
  qed
qed

lemma error_handler_no_generate: "Generate req \<notin> set (fst (error_handler w upd err))"
  by (auto simp: error_handler_def try_reply_def Let_def split: option.splits sum.splits)

subsection \<open>Facts about the concrete environments\<close>

lemma first_image_three:
  "first_image three_answers = Some \<lparr>atype = ARTIFACT_IMAGE, binary = png\<rparr>"
  by (simp add: first_image_def three_answers_def image_artifact_def)

lemma text_answers_no_image:
  "\<forall>resp\<in>set text_answers. \<forall>a\<in>set (artifacts resp). atype a \<noteq> ARTIFACT_IMAGE"
  by (simp add: text_answers_def)

lemma cat_update_eq: "cat_update = Update (Some (Message (generate_prefix @ py '' a cat '')))"
  by (simp add: cat_update_def generate_prefix_def py_def)

lemma strip_cat: "strip (py '' a cat '') = py ''a cat''"
  by (simp add: strip_def lstrip_def rstrip_def py_def isspace_def)

lemma strip_cat_nonempty: "strip (py '' a cat '') \<noteq> []"
  by (simp add: strip_cat) (simp add: py_def)

lemma strip_blank: "strip (py ''   '') = []"
  by (simp add: strip_def lstrip_def rstrip_def py_def isspace_def)

section \<open>Properties of \<open>handle_text\<close>\<close>

text \<open>
  C3. A message that begins with the generate prefix and whose remainder is empty or only
  whitespace makes \<open>handle_text\<close> call \<open>reply_text\<close> with the fixed "please provide a
  description" text and do nothing else: no generation call, no status message. The
  handler returns when the reply succeeds, and what the reply raises propagates.
\<close>

theorem empty_prompt_no_call:
  assumes "strip r = []"
  shows "handle_text w (Update (Some (Message (generate_prefix @ r)))) =
           ([ReplyText please_text],
            case reply_text w please_text of Inl e \<Rightarrow> Raised e | Inr _ \<Rightarrow> Returned)"
  using assms by (simp add: handle_text_generate split: sum.splits)

theorem empty_prompt_no_call_witness:
  "strip (py ''   '') = [] \<and>
   handle_text calm (Update (Some (Message (generate_prefix @ py ''   '')))) =
     ([ReplyText please_text], Returned)"
  using empty_prompt_no_call [of "py ''   ''" calm] strip_blank
  by (simp add: calm_def)

text \<open>
  C9. A message whose text does not begin with the ten characters \<open>/generate\<close> and
  space, such as the bare \<open>/generate\<close> or \<open>/generatex\<close>, makes \<open>handle_text\<close> a
  no-op: no reply, no status message, no generation call.
\<close>

theorem other_text_no_op:
  assumes "\<not> startswith t generate_prefix"
  shows "handle_text w (Update (Some (Message t))) = ([], Returned)"
  using assms by (simp add: handle_text_def)

theorem other_text_no_op_witness:
  "\<not> startswith (py ''/generate'') generate_prefix \<and>
   \<not> startswith (py ''/generatex'') generate_prefix \<and>
   handle_text calm (Update (Some (Message (py ''/generate'')))) = ([], Returned) \<and>
   handle_text calm (Update (Some (Message (py ''/generatex'')))) = ([], Returned)"
proof -
  have a: "\<not> startswith (py ''/generate'') generate_prefix"
    by (simp add: startswith_def generate_prefix_def py_def)
  have b: "\<not> startswith (py ''/generatex'') generate_prefix"
    by (simp add: startswith_def generate_prefix_def py_def)
  show ?thesis
    using a b other_text_no_op [OF a, of calm] other_text_no_op [OF b, of calm] by simp
qed

text \<open>
  C5. When the status message has been sent and the service returns a complete response
  in which no entry holds an image-typed artifact, \<open>handle_text\<close> does nothing after the
  generation call: no photo, no further reply, no log line, and the status message is
  neither edited nor deleted; the handler returns.
\<close>

theorem no_image_falls_through:
  assumes "strip r \<noteq> []"
    and "reply_text w status_text = Inr st"
    and "generate w (generate_request w (strip r)) = (answers, None)"
    and "\<forall>resp\<in>set answers. \<forall>a\<in>set (artifacts resp). atype a \<noteq> ARTIFACT_IMAGE"
  shows "handle_text w (Update (Some (Message (generate_prefix @ r)))) =
           ([ReplyText status_text, Generate (generate_request w (strip r))], Returned)"
  using assms(1-3) first_image_none [OF assms(4)]
  by (simp add: handle_text_generate for_answers_first_image)

theorem no_image_falls_through_witness:
  "strip (py '' a cat '') \<noteq> [] \<and>
   first_image text_answers = None \<and>
   handle_text (calm\<lparr>generate := \<lambda>req. (text_answers, None)\<rparr>) cat_update =
     ([ReplyText status_text,
       Generate (generate_request (calm\<lparr>generate := \<lambda>req. (text_answers, None)\<rparr>) (py ''a cat''))],
      Returned)"
proof -
  let ?w = "calm\<lparr>generate := \<lambda>req. (text_answers, None)\<rparr>"
  have 2: "reply_text ?w status_text = Inr 7"
    by (simp add: calm_def)
  have 3: "generate ?w (generate_request ?w (strip (py '' a cat ''))) = (text_answers, None)"
    by (simp add: calm_def)
  from no_image_falls_through [OF strip_cat_nonempty 2 3 text_answers_no_image]
    strip_cat_nonempty first_image_none [OF text_answers_no_image]
  show ?thesis
    by (simp only: cat_update_eq strip_cat simp_thms)
qed

text \<open>
  C1, as the code has it. The specification gives the caption as \<open>Generated image for: '<prompt>'\<close>
  and has the status message deleted in every case. On line 109 the caption starts with
  U+1F3A8 and a space, and the deletion follows the photo reply only when that reply does
  not raise: below, the photo reply times out, the caption it was called with is not the
  claimed one, and the status message is edited, never deleted.
\<close>

theorem caption_and_delete_counterexample:
  "first_image three_answers = Some \<lparr>atype = ARTIFACT_IMAGE, binary = png\<rparr> \<and>
   handle_text (calm\<lparr>reply_photo := \<lambda>img cap. Some timed_out\<rparr>) cat_update =
     ([ReplyText status_text,
       Generate (generate_request calm (py ''a cat'')),
       ReplyPhoto png (0x1F3A8 # 32 # spec_caption (py ''a cat'')),
       LogError (py ''Error generating image: Timed out''),
       EditText 7 error_text],
      Returned) \<and>
   0x1F3A8 # 32 # spec_caption (py ''a cat'') \<noteq> spec_caption (py ''a cat'')"
proof -
  let ?w = "calm\<lparr>reply_photo := \<lambda>img cap. Some timed_out\<rparr>"
  have req: "generate_request ?w (py ''a cat'') = generate_request calm (py ''a cat'')"
    by (simp add: generate_request_def)
  have cap: "caption (py ''a cat'') = 0x1F3A8 # 32 # spec_caption (py ''a cat'')"
    by (simp add: caption_def spec_caption_def py_def)
  have "handle_text ?w cat_update =
     ([ReplyText status_text,
       Generate (generate_request ?w (py ''a cat'')),
       ReplyPhoto png (caption (py ''a cat'')),
       LogError (py ''Error generating image: Timed out''),
       EditText 7 error_text],
      Returned)"
    by (simp add: cat_update_eq handle_text_generate strip_cat strip_cat_nonempty [unfolded strip_cat]
          for_answers_first_image first_image_three send_image_def on_exception_def
          timed_out_def calm_def)
       (simp add: py_def)
  then show ?thesis
    by (simp add: req cap first_image_three)
qed

text \<open>
  C1, amended. When the status message has been sent and the response holds an image-typed
  artifact, \<open>handle_text\<close> calls \<open>reply_photo\<close> exactly once, with the bytes of the first
  image artifact unmodified and the caption U+1F3A8, space, \<open>Generated image for: '<prompt>'\<close>;
  if that call does not raise, the next effect is the deletion of the status message; and if
  the deletion does not raise either, the handler returns with nothing more done. Whatever
  follows the first image artifact in the response has no influence.
\<close>

theorem first_image_photo_reply:
  assumes "strip r \<noteq> []"
    and "reply_text w status_text = Inr st"
    and "generate w (generate_request w (strip r)) = (answers, fin)"
    and "first_image answers = Some a"
  shows "filter photo_reply (fst (handle_text w (Update (Some (Message (generate_prefix @ r)))))) =
           [ReplyPhoto (binary a) (caption (strip r))] \<and>
         (reply_photo w (binary a) (caption (strip r)) = None \<longrightarrow>
            take 4 (fst (handle_text w (Update (Some (Message (generate_prefix @ r)))))) =
              [ReplyText status_text, Generate (generate_request w (strip r)),
               ReplyPhoto (binary a) (caption (strip r)), Delete st]) \<and>
         (reply_photo w (binary a) (caption (strip r)) = None \<and> delete w st = None \<longrightarrow>
            handle_text w (Update (Some (Message (generate_prefix @ r)))) =
              ([ReplyText status_text, Generate (generate_request w (strip r)),
                ReplyPhoto (binary a) (caption (strip r)), Delete st], Returned))"
  using assms
  by (simp add: handle_text_generate for_answers_first_image send_image_def on_exception_def
        Let_def split: option.splits)

theorem first_image_photo_reply_witness:
  "strip (py '' a cat '') \<noteq> [] \<and>
   first_image three_answers = Some \<lparr>atype = ARTIFACT_IMAGE, binary = png\<rparr> \<and>
   handle_text calm cat_update =
     ([ReplyText status_text, Generate (generate_request calm (py ''a cat'')),
       ReplyPhoto png (caption (py ''a cat'')), Delete 7], Returned)"
proof -
  have 2: "reply_text calm status_text = Inr 7"
    by (simp add: calm_def)
  have 3: "generate calm (generate_request calm (strip (py '' a cat ''))) = (three_answers, None)"
    by (simp add: calm_def)
  have 4: "reply_photo calm png (caption (py ''a cat'')) = None \<and> delete calm 7 = None"
    by (simp add: calm_def)
  from first_image_photo_reply [OF strip_cat_nonempty 2 3 first_image_three] 4
  have "handle_text calm cat_update =
     ([ReplyText status_text, Generate (generate_request calm (py ''a cat'')),
       ReplyPhoto png (caption (py ''a cat'')), Delete 7], Returned)"
    by (simp add: cat_update_eq strip_cat)
  with strip_cat_nonempty first_image_three show ?thesis by simp
qed

text \<open>
  C2, as the code has it. The status reply of line 84 comes before the generation call and
  outside the \<open>try\<close> block: when it raises, the exception leaves the handler and no
  generation call is issued, although the trimmed prompt \<open>a cat\<close> is not empty.
\<close>

theorem status_reply_fails_counterexample:
  "strip (py '' a cat '') = py ''a cat'' \<and>
   handle_text (calm\<lparr>reply_text := \<lambda>s. Inl timed_out\<rparr>) cat_update =
     ([ReplyText status_text], Raised timed_out)"
  by (simp add: strip_cat cat_update_eq handle_text_generate strip_cat_nonempty [unfolded strip_cat])

text \<open>
  C2, amended. For a message that begins with the generate prefix and whose remainder
  trims to a non-empty string P, \<open>handle_text\<close> issues exactly one generation call, with
  prompt P, when the status reply is sent without raising; when that reply raises, the
  exception leaves the handler and no generation call is issued.
\<close>

theorem one_generate_call:
  assumes "strip r \<noteq> []"
  shows "filter generate_call (fst (handle_text w (Update (Some (Message (generate_prefix @ r)))))) =
           (case reply_text w status_text of
              Inl e \<Rightarrow> []
            | Inr st \<Rightarrow> [Generate (generate_request w (strip r))]) \<and>
         prompt (generate_request w (strip r)) = strip r \<and>
         (reply_text w status_text = Inl e \<longrightarrow>
            handle_text w (Update (Some (Message (generate_prefix @ r)))) =
              ([ReplyText status_text], Raised e))"
proof -
  have "prompt (generate_request w (strip r)) = strip r"
    by (simp add: generate_request_def)
  moreover have "reply_text w status_text = Inl e \<longrightarrow>
      handle_text w (Update (Some (Message (generate_prefix @ r)))) =
        ([ReplyText status_text], Raised e)"
    using assms by (simp add: handle_text_generate)
  moreover have "filter generate_call (fst (handle_text w (Update (Some (Message (generate_prefix @ r)))))) =
           (case reply_text w status_text of
              Inl e \<Rightarrow> []
            | Inr st \<Rightarrow> [Generate (generate_request w (strip r))])"
  proof (cases "reply_text w status_text")
    case (Inl e)
    with assms show ?thesis by (simp add: handle_text_generate)
  next
    case (Inr st)
    obtain evs fl where f: "for_answers w st (strip r) (generate w (generate_request w (strip r))) = (evs, fl)"
      by (cases "for_answers w st (strip r) (generate w (generate_request w (strip r)))")
    with for_answers_no_generate [of w st "strip r" "generate w (generate_request w (strip r))"]
    have evs: "filter generate_call evs = []" by simp
    show ?thesis
    proof (cases fl)
      case (Raise e)
      obtain evs' out where o: "on_exception w st e = (evs', out)"
        by (cases "on_exception w st e")
      with on_exception_no_generate [of w st e] have "filter generate_call evs' = []" by simp
      with assms Inr f Raise o evs show ?thesis by (simp add: handle_text_generate)
    qed (use assms Inr f evs in \<open>simp_all add: handle_text_generate\<close>)
  qed
  ultimately show ?thesis by simp
qed

theorem one_generate_call_witness:
  "strip (py '' a cat '') \<noteq> [] \<and>
   filter generate_call (fst (handle_text calm cat_update)) =
     [Generate (generate_request calm (py ''a cat''))] \<and>
   prompt (generate_request calm (py ''a cat'')) = py ''a cat'' \<and>
   reply_text (calm\<lparr>reply_text := \<lambda>s. Inl cancelled\<rparr>) status_text = Inl cancelled \<and>
   filter generate_call (fst (handle_text (calm\<lparr>reply_text := \<lambda>s. Inl cancelled\<rparr>) cat_update)) = [] \<and>
   handle_text (calm\<lparr>reply_text := \<lambda>s. Inl cancelled\<rparr>) cat_update =
     ([ReplyText status_text], Raised cancelled)"
proof -
  let ?w = "calm\<lparr>reply_text := \<lambda>s. Inl cancelled\<rparr>"
  have ok: "reply_text calm status_text = Inr 7"
    by (simp add: calm_def)
  have bad: "reply_text ?w status_text = Inl cancelled"
    by simp
  from one_generate_call [OF strip_cat_nonempty, of calm] ok
  have 1: "filter generate_call (fst (handle_text calm cat_update)) =
             [Generate (generate_request calm (py ''a cat''))] \<and>
           prompt (generate_request calm (py ''a cat'')) = py ''a cat''"
    by (simp add: cat_update_eq strip_cat)
  from one_generate_call [OF strip_cat_nonempty, of ?w cancelled] bad
  have 2: "filter generate_call (fst (handle_text ?w cat_update)) = [] \<and>
           handle_text ?w cat_update = ([ReplyText status_text], Raised cancelled)"
    by (simp add: cat_update_eq)
  from 1 2 bad strip_cat_nonempty show ?thesis
    by simp
qed

text \<open>
  C4, as the code has it. An exception leaves the handler in two ways. The \<open>except\<close>
  branch calls \<open>edit_text\<close> with no guard of its own: in the first run below the
  generation call fails, the failure is caught and logged, and the edit of the status
  message then times out. And the clause is \<open>except Exception\<close>: in the second run the
  task is cancelled at the \<open>await\<close> of the photo reply (line 107), the
  \<open>CancelledError\<close> is not an \<open>Exception\<close>, and it passes the clause with nothing
  logged and the status message unedited.
\<close>

theorem exception_escapes_counterexample:
  "handle_text
     (calm\<lparr>generate := \<lambda>req. ([], Some (Exn (py ''quota exceeded''))),
           edit_text := \<lambda>m s. Some timed_out\<rparr>) cat_update =
     ([ReplyText status_text,
       Generate (generate_request calm (py ''a cat'')),
       LogError (py ''Error generating image: quota exceeded''),
       EditText 7 error_text],
      Raised timed_out) \<and>
   handle_text (calm\<lparr>reply_photo := \<lambda>img cap. Some cancelled\<rparr>) cat_update =
     ([ReplyText status_text,
       Generate (generate_request calm (py ''a cat'')),
       ReplyPhoto png (caption (py ''a cat''))],
      Raised cancelled)"
proof -
  have "handle_text
     (calm\<lparr>generate := \<lambda>req. ([], Some (Exn (py ''quota exceeded''))),
           edit_text := \<lambda>m s. Some timed_out\<rparr>) cat_update =
     ([ReplyText status_text,
       Generate (generate_request calm (py ''a cat'')),
       LogError (py ''Error generating image: quota exceeded''),
       EditText 7 error_text],
      Raised timed_out)"
    by (simp add: cat_update_eq handle_text_generate strip_cat strip_cat_nonempty [unfolded strip_cat]
          on_exception_def calm_def generate_request_def)
       (simp add: py_def)
  moreover have "handle_text (calm\<lparr>reply_photo := \<lambda>img cap. Some cancelled\<rparr>) cat_update =
     ([ReplyText status_text,
       Generate (generate_request calm (py ''a cat'')),
       ReplyPhoto png (caption (py ''a cat''))],
      Raised cancelled)"
    by (simp add: cat_update_eq handle_text_generate strip_cat strip_cat_nonempty [unfolded strip_cat]
          for_answers_first_image first_image_three send_image_def cancelled_def calm_def
          generate_request_def)
  ultimately show ?thesis by simp
qed

text \<open>
  C4, amended. For a non-empty prompt, when the generation call or the processing of its
  response (the photo reply and the deletion included, see \<open>try_block_raises\<close>) raises
  an exception \<open>e\<close> that is an instance of \<open>Exception\<close>, \<open>handle_text\<close> catches it,
  logs \<open>Error generating image: \<close> followed by \<open>str(e)\<close>, and calls \<open>edit_text\<close> on
  the status message with the fixed error text; \<open>e\<close> is never re-raised, and the handler
  returns normally exactly when that edit does not raise (an exception raised by the edit
  itself leaves the handler). An exception that is not an instance of \<open>Exception\<close>
  (\<open>asyncio.CancelledError\<close>, \<open>KeyboardInterrupt\<close>) is not caught: it leaves the
  handler, nothing is logged and the status message is not edited.
\<close>

theorem exception_caught:
  assumes "strip r \<noteq> []"
    and "reply_text w status_text = Inr st"
    and "for_answers w st (strip r) (generate w (generate_request w (strip r))) = (evs, Raise e)"
  shows "handle_text w (Update (Some (Message (generate_prefix @ r)))) =
           (if is_exception e then
              (ReplyText status_text # Generate (generate_request w (strip r)) # evs @
                 [LogError (py ''Error generating image: '' @ str_exn e), EditText st error_text],
               case edit_text w st error_text of None \<Rightarrow> Returned | Some e' \<Rightarrow> Raised e')
            else
              (ReplyText status_text # Generate (generate_request w (strip r)) # evs, Raised e))"
  using assms
  by (simp add: handle_text_generate on_exception_def Let_def split: option.splits)

theorem exception_caught_witness:
  "is_exception (Exn (py ''quota exceeded'')) \<and>
   handle_text (calm\<lparr>generate := \<lambda>req. (text_answers, Some (Exn (py ''quota exceeded'')))\<rparr>) cat_update =
     ([ReplyText status_text,
       Generate (generate_request calm (py ''a cat'')),
       LogError (py ''Error generating image: quota exceeded''),
       EditText 7 error_text],
      Returned)"
proof -
  let ?w = "calm\<lparr>generate := \<lambda>req. (text_answers, Some (Exn (py ''quota exceeded'')))\<rparr>"
  have 2: "reply_text ?w status_text = Inr 7"
    by (simp add: calm_def)
  have 3: "for_answers ?w 7 (strip (py '' a cat '')) (generate ?w (generate_request ?w (strip (py '' a cat ''))))
             = ([], Raise (Exn (py ''quota exceeded'')))"
    by (simp add: for_answers_first_image first_image_none [OF text_answers_no_image])
  have 4: "edit_text ?w 7 error_text = None"
    by (simp add: calm_def)
  have 5: "generate_request ?w (py ''a cat'') = generate_request calm (py ''a cat'')"
    by (simp add: generate_request_def)
  from exception_caught [OF strip_cat_nonempty 2 3] 4 5
  show ?thesis
    by (simp add: cat_update_eq strip_cat) (simp add: py_def)
qed

text \<open>
  C10, as the code has it. Not every exception raised after the photo reply reaches the
  catch branch: below, the photo has been sent and the task is cancelled at the \<open>await\<close>
  of the deletion (line 111); the \<open>CancelledError\<close> is not an \<open>Exception\<close>, it passes
  \<open>except Exception\<close>, and the status message is not edited.
\<close>

theorem cancelled_delete_counterexample:
  "handle_text (calm\<lparr>delete := \<lambda>m. Some cancelled\<rparr>) cat_update =
     ([ReplyText status_text, Generate (generate_request calm (py ''a cat'')),
       ReplyPhoto png (caption (py ''a cat'')), Delete 7],
      Raised cancelled)"
  by (simp add: cat_update_eq handle_text_generate strip_cat strip_cat_nonempty [unfolded strip_cat]
        for_answers_first_image first_image_three send_image_def cancelled_def calm_def
        generate_request_def)

text \<open>
  C10, amended. When the photo reply has succeeded and the deletion of the status message
  then raises an exception that is an instance of \<open>Exception\<close>, the \<open>except\<close> branch
  still logs the error and edits the status message to the fixed error text: one generate
  request delivers both the photo and the error text. When what the deletion raises is not
  an instance of \<open>Exception\<close> (\<open>asyncio.CancelledError\<close>), it leaves the handler and
  the status message is not edited.
\<close>

theorem photo_then_error_text:
  assumes "strip r \<noteq> []"
    and "reply_text w status_text = Inr st"
    and "generate w (generate_request w (strip r)) = (answers, fin)"
    and "first_image answers = Some a"
    and "reply_photo w (binary a) (caption (strip r)) = None"
    and "delete w st = Some e"
  shows "handle_text w (Update (Some (Message (generate_prefix @ r)))) =
           (if is_exception e then
              ([ReplyText status_text, Generate (generate_request w (strip r)),
                ReplyPhoto (binary a) (caption (strip r)), Delete st,
                LogError (py ''Error generating image: '' @ str_exn e), EditText st error_text],
               case edit_text w st error_text of None \<Rightarrow> Returned | Some e' \<Rightarrow> Raised e')
            else
              ([ReplyText status_text, Generate (generate_request w (strip r)),
                ReplyPhoto (binary a) (caption (strip r)), Delete st],
               Raised e))"
  using assms
  by (simp add: handle_text_generate for_answers_first_image send_image_def on_exception_def
        Let_def split: option.splits)

theorem photo_then_error_text_witness:
  "is_exception timed_out \<and>
   handle_text (calm\<lparr>delete := \<lambda>m. Some timed_out\<rparr>) cat_update =
     ([ReplyText status_text, Generate (generate_request calm (py ''a cat'')),
       ReplyPhoto png (caption (py ''a cat'')), Delete 7,
       LogError (py ''Error generating image: Timed out''), EditText 7 error_text],
      Returned)"
proof -
  let ?w = "calm\<lparr>delete := \<lambda>m. Some timed_out\<rparr>"
  have 2: "reply_text ?w status_text = Inr 7"
    by (simp add: calm_def)
  have 3: "generate ?w (generate_request ?w (strip (py '' a cat ''))) = (three_answers, None)"
    by (simp add: calm_def)
  have 5: "reply_photo ?w (binary \<lparr>atype = ARTIFACT_IMAGE, binary = png\<rparr>) (caption (strip (py '' a cat ''))) = None"
    by (simp add: calm_def)
  have 6: "delete ?w 7 = Some timed_out"
    by simp
  have 7: "edit_text ?w 7 error_text = None"
    by (simp add: calm_def)
  have 8: "generate_request ?w (py ''a cat'') = generate_request calm (py ''a cat'')"
    by (simp add: generate_request_def)
  from photo_then_error_text [OF strip_cat_nonempty 2 3 first_image_three 5 6] 7 8
  show ?thesis
    by (simp add: cat_update_eq strip_cat timed_out_def) (simp add: py_def)
qed



text \<open>
  C7. Every generation call a handler makes carries steps 30, guidance scale 7.0, width
  512, height 512, one sample, the sampler \<open>SAMPLER_K_DPMPP_2M\<close> and the seed
  \<open>int(time.time())\<close>; only the prompt is free.
\<close>

theorem fixed_parameters:
  assumes "Generate req \<in> set (fst (handle_text w upd)) \<or>
           Generate req \<in> set (fst (error_handler w upd' err))"
  shows "req = \<lparr>prompt = prompt req, seed = int_of_float (time_time w), steps = 30,
                cfg_scale = 7.0, width = 512, height = 512, samples = 1,
                sampler = SAMPLER_K_DPMPP_2M\<rparr>"
proof -
  from assms have g: "Generate req \<in> set (filter generate_call (fst (handle_text w upd)))"
    by (simp add: error_handler_no_generate)
  from handle_text_calls [of w upd] consider
      (none) "filter generate_call (fst (handle_text w upd)) = []"
    | (one) p where "filter generate_call (fst (handle_text w upd)) = [Generate (generate_request w p)]"
    by blast
  then have "\<exists>p. req = generate_request w p"
  proof cases
    case none
    from g show ?thesis unfolding none by simp
  next
    case one
    from g have "req = generate_request w p" unfolding one by simp
    then show ?thesis by blast
  qed
  then show ?thesis
    by (auto simp: generate_request_def)
qed

theorem fixed_parameters_witness:
  "Generate (generate_request calm (py ''a cat'')) \<in> set (fst (handle_text calm cat_update)) \<and>
   generate_request calm (py ''a cat'') =
     \<lparr>prompt = py ''a cat'', seed = 1730000000, steps = 30, cfg_scale = 7.0, width = 512,
      height = 512, samples = 1, sampler = SAMPLER_K_DPMPP_2M\<rparr>"
proof -
  have tr: "fst (handle_text calm cat_update) =
     [ReplyText status_text, Generate (generate_request calm (py ''a cat'')),
      ReplyPhoto png (caption (py ''a cat'')), Delete 7]"
    by (simp add: cat_update_eq handle_text_generate strip_cat strip_cat_nonempty [unfolded strip_cat]
          for_answers_first_image first_image_three send_image_def calm_def)
  have 1: "Generate (generate_request calm (py ''a cat'')) \<in> set (fst (handle_text calm cat_update))"
    by (simp add: tr)
  have 2: "prompt (generate_request calm (py ''a cat'')) = py ''a cat''"
    by (simp add: generate_request_def)
  have 3: "int_of_float (time_time calm) = 1730000000"
    by (simp add: calm_def int_of_float_def)
  from fixed_parameters [of "generate_request calm (py ''a cat'')" calm cat_update None timed_out] 1
  have "generate_request calm (py ''a cat'') =
     \<lparr>prompt = prompt (generate_request calm (py ''a cat'')), seed = int_of_float (time_time calm),
      steps = 30, cfg_scale = 7.0, width = 512, height = 512, samples = 1,
      sampler = SAMPLER_K_DPMPP_2M\<rparr>"
    by blast
  with 1 show ?thesis
    by (simp only: 2 3 simp_thms)
qed

section \<open>Properties of \<open>error_handler\<close>\<close>

text \<open>
  C8. For every update routed to it, \<open>error_handler\<close> logs the update and the error,
  calls \<open>reply_text\<close> with the generic text when the update carries a message, and
  returns normally whatever that attempt raises.
\<close>

theorem error_handler_swallows:
  "error_handler w upd err =
     (LogError (py ''Update '' @ str_update w upd @ py '' caused error '' @ str_exn err) #
        (case upd of Some (Update (Some m)) \<Rightarrow> [ReplyText wrong_text] | _ \<Rightarrow> []),
      Returned)"
  by (simp add: error_handler_def try_reply_def Let_def split: option.splits sum.splits update.splits)

theorem error_handler_swallows_witness:
  "error_handler (calm\<lparr>reply_text := \<lambda>s. Inl timed_out\<rparr>) (Some cat_update) timed_out =
     ([LogError (py ''Update Update(update_id=1) caused error Timed out''), ReplyText wrong_text],
      Returned) \<and>
   error_handler calm None timed_out =
     ([LogError (py ''Update None caused error Timed out'')], Returned)"
proof -
  let ?w = "calm\<lparr>reply_text := \<lambda>s. Inl timed_out\<rparr>"
  have a: "str_update ?w (Some cat_update) = py ''Update(update_id=1)''"
    by (simp add: calm_def)
  have b: "str_update calm None = py ''None''"
    by (simp add: calm_def)
  have c: "str_exn timed_out = py ''Timed out''"
    by (simp add: timed_out_def)
  have d: "py ''Update '' @ py ''Update(update_id=1)'' @ py '' caused error '' @ py ''Timed out'' =
           py ''Update Update(update_id=1) caused error Timed out''"
    by (simp add: py_def)
  have e: "py ''Update '' @ py ''None'' @ py '' caused error '' @ py ''Timed out'' =
           py ''Update None caused error Timed out''"
    by (simp add: py_def)
  from error_handler_swallows [of ?w "Some cat_update" timed_out]
  have 1: "error_handler ?w (Some cat_update) timed_out =
     ([LogError (py ''Update Update(update_id=1) caused error Timed out''), ReplyText wrong_text],
      Returned)"
    unfolding a c d by (simp add: cat_update_def)
  from error_handler_swallows [of calm None timed_out]
  have 2: "error_handler calm None timed_out =
     ([LogError (py ''Update None caused error Timed out'')], Returned)"
    unfolding b c e by simp
  from 1 2 show ?thesis
    by (simp only: simp_thms)
qed

end
